theory Spec2Isabelle
  imports Main
begin

text \<open>
  A model of the identity class \<open>OpenE2EE\<close> (\<open>src/unnamed/part_000\<close>) and of the service
  \<open>PGPService\<close> (\<open>src/lib/pgp.ts\<close>) that it calls: hybrid encryption of a message under a
  fresh session key, the wrapping of that key for recipients, and the sharing of an
  envelope with another identity.  Asynchronous functions are functions that return their
  outcome; those that draw on the provider's random source take its state and return it.
\<close>

section \<open>Failures\<close>

text \<open>
  The source throws JavaScript exceptions.  The model returns them as values: a rejected
  promise or a thrown error is \<open>Inl\<close> of a \<open>failure\<close>, a normal result is \<open>Inr\<close>.

  \<open>provider_error\<close> is the failure column of the Crypto Provider table (the openpgp
  library, which is not part of the repository).  \<open>failure\<close> adds what the repository's
  own layers can produce: the codec's format error, the tag that \<open>tryCatch\<close> puts around
  a failure, and the state error that the specification speaks of.
\<close>

datatype provider_error =
    AuthenticationError
  | KeyParseError
  | KeyGenerationError
  | DerivationError
  | EncryptionError
  | DecryptionError
  | SignatureVerificationError

datatype failure =
    Provider provider_error
  | EnvelopeFormatError
  | StateError
  | Tagged string failure

text \<open>The innermost failure under all tags.\<close>

fun cause_of :: "failure \<Rightarrow> failure" where
  "cause_of (Tagged n e) = cause_of e"
| "cause_of e = e"

definition fails_with :: "failure + 'a \<Rightarrow> failure \<Rightarrow> bool" where
  "fails_with r c = (case r of Inl e \<Rightarrow> cause_of e = c | Inr v \<Rightarrow> False)"




text \<open>
  The failure is one that the provider raised in one of the operations \<open>names\<close>: a
  provider error directly under one of these tags.
\<close>

definition raised_in :: "string list \<Rightarrow> failure \<Rightarrow> bool" where
  "raised_in names e = (case e of Tagged n (Provider x) \<Rightarrow> n \<in> set names | _ \<Rightarrow> False)"

text \<open>The outcome is a failure, and one that the provider raised in one of the operations \<open>names\<close>.\<close>

definition provider_failure :: "string list \<Rightarrow> failure + 'a \<Rightarrow> bool" where
  "provider_failure names r = (case r of Inl e \<Rightarrow> raised_in names e | Inr v \<Rightarrow> False)"

definition thrown :: "provider_error + 'a \<Rightarrow> failure + 'a" where
  "thrown r = (case r of Inl e \<Rightarrow> Inl (Provider e) | Inr v \<Rightarrow> Inr v)"

definition thrownW :: "('w \<Rightarrow> (provider_error + 'a) \<times> 'w) \<Rightarrow> 'w \<Rightarrow> (failure + 'a) \<times> 'w" where
  "thrownW m w = (case m w of (r, w') \<Rightarrow> (thrown r, w'))"

text \<open>
  Modelled from the spec: \<open>tryCatch\<close> of \<open>./error\<close>, which \<open>src/lib/pgp.ts\<close> imports and
  which is not among the source files.  The specification says that every operation tags
  its failure with the name of the operation that produced it; so \<open>tryCatch name f\<close> runs
  \<open>f\<close> and wraps a failure of \<open>f\<close> in the tag \<open>name\<close>, leaving a normal result alone.
\<close>

definition tryCatch :: "string \<Rightarrow> failure + 'a \<Rightarrow> failure + 'a" where
  "tryCatch name r = (case r of Inl e \<Rightarrow> Inl (Tagged name e) | Inr v \<Rightarrow> Inr v)"

text \<open>
  Modelled from the spec: the same \<open>tryCatch\<close> of \<open>./error\<close>, around a computation that
  draws on the provider's random source and returns it updated.
\<close>

definition tryCatchW :: "string \<Rightarrow> ('w \<Rightarrow> (failure + 'a) \<times> 'w) \<Rightarrow> 'w \<Rightarrow> (failure + 'a) \<times> 'w" where
  "tryCatchW name m w = (case m w of (r, w') \<Rightarrow> (tryCatch name r, w'))"

text \<open>
  \<open>Promise.all\<close> starts all its promises, fulfils with all their values when all of them
  fulfil, and otherwise rejects with the reason of the promise that rejects first in time.
  Which one that is depends on the timing of the run, which the program does not fix.
  The model takes the timing as an argument \<open>race\<close>: of the promises that reject, the one
  at position \<open>race\<close> (modulo their number) is the first to reject.  When exactly one
  promise rejects, its reason is the result whatever \<open>race\<close> is.  A statement about the
  program has to hold for every \<open>race\<close>.
\<close>

definition first_rejection :: "nat \<Rightarrow> failure list \<Rightarrow> failure" where
  "first_rejection race es = es ! (race mod length es)"

definition Promise_all2 :: "nat \<Rightarrow> failure + 'a \<Rightarrow> failure + 'b \<Rightarrow> failure + 'a \<times> 'b" where
  "Promise_all2 race ra rb =
     (case ra of
        Inl ea \<Rightarrow> (case rb of Inl eb \<Rightarrow> Inl (first_rejection race [ea, eb]) | Inr b \<Rightarrow> Inl ea)
      | Inr a \<Rightarrow> (case rb of Inl eb \<Rightarrow> Inl eb | Inr b \<Rightarrow> Inr (a, b)))"

text \<open>
  The same for two computations that draw on the provider's random source.  Both are
  run; the state of the random source is passed through them in array order.
\<close>

definition Promise_all2W ::
  "nat \<Rightarrow> ('w \<Rightarrow> (failure + 'a) \<times> 'w) \<Rightarrow> ('w \<Rightarrow> (failure + 'b) \<times> 'w) \<Rightarrow> 'w \<Rightarrow> (failure + 'a \<times> 'b) \<times> 'w" where
  "Promise_all2W race ma mb w =
     (case ma w of (ra, w1) \<Rightarrow> (case mb w1 of (rb, w2) \<Rightarrow> (Promise_all2 race ra rb, w2)))"

fun rejections :: "(failure + 'a) list \<Rightarrow> failure list" where
  "rejections [] = []"
| "rejections (Inl e # rs) = e # rejections rs"
| "rejections (Inr x # rs) = rejections rs"

fun fulfilments :: "(failure + 'a) list \<Rightarrow> 'a list" where
  "fulfilments [] = []"
| "fulfilments (Inl e # rs) = fulfilments rs"
| "fulfilments (Inr x # rs) = x # fulfilments rs"

definition Promise_all :: "nat \<Rightarrow> (failure + 'a) list \<Rightarrow> failure + 'a list" where
  "Promise_all race rs =
     (if rejections rs = [] then Inr (fulfilments rs)
      else Inl (first_rejection race (rejections rs)))"


section \<open>The envelope codec\<close>

text \<open>
  \<open>writeEncryptedMessage\<close> and \<open>readEncryptedMessage\<close> are imported by the identity class
  from \<open>./models\<close>, which is not among the source files.  The specification fixes only
  their contract (two blobs in, one string out, reversible whatever the blobs contain) and
  names length-prefixing as a scheme that meets it.  The model is that scheme: the decimal
  length of the wrapped key, a colon, the wrapped key, the encrypted data.
\<close>

definition digit_char :: "nat \<Rightarrow> char" where
  "digit_char d = char_of (48 + d)"

definition is_digit :: "char \<Rightarrow> bool" where
  "is_digit c = (48 \<le> (of_char c :: nat) \<and> (of_char c :: nat) \<le> 57)"

definition digit_val :: "char \<Rightarrow> nat" where
  "digit_val c = of_char c - 48"

fun digits :: "nat \<Rightarrow> string" where
  "digits n = (if n < 10 then [digit_char n] else digits (n div 10) @ [digit_char (n mod 10)])"

declare digits.simps [simp del]

definition number :: "string \<Rightarrow> nat" where
  "number ds = foldl (\<lambda>a c. 10 * a + digit_val c) 0 ds"

text \<open>
  Modelled from the spec: \<open>writeEncryptedMessage\<close> of \<open>./models\<close> (not among the source
  files), the \<open>write\<close> of the codec contract, as a length-prefixed packing.
\<close>

definition writeEncryptedMessage :: "string \<Rightarrow> string \<Rightarrow> string" where
  "writeEncryptedMessage encryptedKey encryptedData =
     digits (length encryptedKey) @ CHR '':'' # encryptedKey @ encryptedData"

text \<open>
  Modelled from the spec: \<open>readEncryptedMessage\<close> of \<open>./models\<close> (not among the source
  files), the \<open>read\<close> of the codec contract.  It reads the decimal length up to the colon
  and splits what follows at that length; a string that is not of this shape is the
  \<open>EnvelopeFormatError\<close> of the specification.
\<close>

definition readEncryptedMessage :: "string \<Rightarrow> failure + string \<times> string" where
  "readEncryptedMessage encryptedMessage =
     (let ds = takeWhile is_digit encryptedMessage;
          rest = dropWhile is_digit encryptedMessage
      in case rest of
           [] \<Rightarrow> Inl EnvelopeFormatError
         | c # body \<Rightarrow>
             if ds = [] \<or> c \<noteq> CHR '':'' \<or> length body < number ds
             then Inl EnvelopeFormatError
             else Inr (take (number ds) body, drop (number ds) body))"


section \<open>The Crypto Provider\<close>

text \<open>
  The openpgp library is an external collaborator: the source calls it and does not
  contain it.  It is a parameter of the model, a record of the library functions that
  \<open>src/lib/pgp.ts\<close> calls.

  \<^item> \<open>'w\<close> is the state of the library's random source.  Key generation, session-key
    generation and encryption draw on it and return it updated; parsing and decryption
    do not.
  \<^item> \<open>'sk\<close> is a private-key object (\<open>openpgp.PrivateKey\<close>), \<open>'pk\<close> a public-key object
    (\<open>openpgp.PublicKey\<close>).
  \<^item> The identity class passes its optional fields with an unchecked cast
    (\<open>this.privateKey as PGPPrivateKey\<close>), so at run time the library can receive
    \<open>undefined\<close> for a key: key arguments that come from those fields are options.
  \<^item> \<open>createMessage\<close> followed by \<open>encrypt\<close> is one field, \<open>readMessage\<close> followed by
    \<open>decrypt\<close> another; \<open>og_decrypt_keys\<close> is the call with \<open>expectSigned: true\<close>.
    Both build a text message (\<open>createMessage({ text })\<close>) and read the decrypted data
    back as text.
  \<^item> \<open>og_generateSessionKey\<close> returns the bytes of the key, the \<open>data\<close> field of the
    library's result.
  \<^item> \<open>og_toPublic\<close> and \<open>og_isDecrypted\<close> are the library's \<open>key.toPublic()\<close> and
    \<open>key.isDecrypted()\<close>.  The source does not call them; the provider contract below
    is stated with them.
\<close>

record ('w, 'sk, 'pk) openpgp =
  og_generateKey :: "string \<Rightarrow> string \<Rightarrow> 'w \<Rightarrow> (provider_error + string \<times> string) \<times> 'w"
  og_generateSessionKey :: "'pk option \<Rightarrow> 'w \<Rightarrow> (provider_error + nat list) \<times> 'w"
  og_readKey :: "string \<Rightarrow> provider_error + 'pk"
  og_readPrivateKey :: "string \<Rightarrow> provider_error + 'sk"
  og_decryptKey :: "'sk \<Rightarrow> string \<Rightarrow> provider_error + 'sk"
  og_encrypt_keys :: "'sk option \<Rightarrow> 'pk option list \<Rightarrow> string \<Rightarrow> 'w \<Rightarrow> (provider_error + string) \<times> 'w"
  og_decrypt_keys :: "'sk option \<Rightarrow> 'pk option list \<Rightarrow> string \<Rightarrow> provider_error + string"
  og_encrypt_pw :: "string \<Rightarrow> string \<Rightarrow> 'w \<Rightarrow> (provider_error + string) \<times> 'w"
  og_decrypt_pw :: "string \<Rightarrow> string \<Rightarrow> provider_error + string"
  og_toPublic :: "'sk \<Rightarrow> 'pk"
  og_isDecrypted :: "'sk \<Rightarrow> bool"


section \<open>PGPService (src/lib/pgp.ts)\<close>

text \<open>
  Each method is the library call wrapped in \<open>tryCatch\<close> with the method's name.
  The methods \<open>encrypt\<close> and \<open>decrypt\<close> of the service carry the prefix \<open>pgp_\<close> here,
  as all of them do, to keep them apart from the methods of the identity class.
\<close>

definition pgp_generateKeyPair ::
  "('w, 'sk, 'pk) openpgp \<Rightarrow> string \<Rightarrow> string \<Rightarrow> 'w \<Rightarrow> (failure + string \<times> string) \<times> 'w" where
  "pgp_generateKeyPair P passphrase userId =
     tryCatchW ''pgp.generateKeyPair'' (thrownW (og_generateKey P passphrase userId))"

text \<open>
  Modelled from the spec: \<open>arrayToHexString\<close> of \<open>./encoding.utils\<close>, which
  \<open>src/lib/pgp.ts\<close> imports and which is not among the source files.  The specification
  says that a session key is represented as a hex string; so each byte of the array
  becomes its two hexadecimal digits.
\<close>

definition hex_digit :: "nat \<Rightarrow> char" where
  "hex_digit n = (if n < 10 then char_of (48 + n) else char_of (87 + n))"

definition arrayToHexString :: "nat list \<Rightarrow> string" where
  "arrayToHexString bytes =
     concat (map (\<lambda>b. [hex_digit (b div 16 mod 16), hex_digit (b mod 16)]) bytes)"

definition pgp_generateEncryptionKey ::
  "('w, 'sk, 'pk) openpgp \<Rightarrow> 'pk option \<Rightarrow> 'w \<Rightarrow> (failure + string) \<times> 'w" where
  "pgp_generateEncryptionKey P publicKey =
     tryCatchW ''pgp.generateEncryptionKey''
       (\<lambda>w. case thrownW (og_generateSessionKey P publicKey) w of
              (Inl e, w') \<Rightarrow> (Inl e, w')
            | (Inr sessionKey, w') \<Rightarrow> (Inr (arrayToHexString sessionKey), w'))"

definition pgp_readPublicKey :: "('w, 'sk, 'pk) openpgp \<Rightarrow> string \<Rightarrow> failure + 'pk" where
  "pgp_readPublicKey P publicKeyArmored =
     tryCatch ''pgp.readPublicKey'' (thrown (og_readKey P publicKeyArmored))"

definition pgp_readPrivateKey :: "('w, 'sk, 'pk) openpgp \<Rightarrow> string \<Rightarrow> failure + 'sk" where
  "pgp_readPrivateKey P privateKeyArmored =
     tryCatch ''pgp.readPrivateKey'' (thrown (og_readPrivateKey P privateKeyArmored))"

definition pgp_decryptPrivateKey ::
  "('w, 'sk, 'pk) openpgp \<Rightarrow> string \<Rightarrow> string \<Rightarrow> failure + 'sk" where
  "pgp_decryptPrivateKey P privateKeyArmored passphrase =
     tryCatch ''pgp.decryptPrivateKey''
       (case pgp_readPrivateKey P privateKeyArmored of
          Inl e \<Rightarrow> Inl e
        | Inr privateKey \<Rightarrow> thrown (og_decryptKey P privateKey passphrase))"

definition pgp_encryptAsymmetric ::
  "('w, 'sk, 'pk) openpgp \<Rightarrow> 'sk option \<Rightarrow> 'pk option list \<Rightarrow> string \<Rightarrow> 'w \<Rightarrow> (failure + string) \<times> 'w" where
  "pgp_encryptAsymmetric P privateKey encryptionKeys data =
     tryCatchW ''pgp.encryptAsymmetric'' (thrownW (og_encrypt_keys P privateKey encryptionKeys data))"

definition pgp_decryptAsymmetric ::
  "('w, 'sk, 'pk) openpgp \<Rightarrow> 'sk option \<Rightarrow> 'pk option list \<Rightarrow> string \<Rightarrow> failure + string" where
  "pgp_decryptAsymmetric P privateKey verificationKeys data =
     tryCatch ''pgp.decryptAsymmetric'' (thrown (og_decrypt_keys P privateKey verificationKeys data))"

definition pgp_encrypt ::
  "('w, 'sk, 'pk) openpgp \<Rightarrow> string \<Rightarrow> string \<Rightarrow> 'w \<Rightarrow> (failure + string) \<times> 'w" where
  "pgp_encrypt P key data = tryCatchW ''pgp.encrypt'' (thrownW (og_encrypt_pw P key data))"

definition pgp_decrypt :: "('w, 'sk, 'pk) openpgp \<Rightarrow> string \<Rightarrow> string \<Rightarrow> failure + string" where
  "pgp_decrypt P key data = tryCatch ''pgp.decrypt'' (thrown (og_decrypt_pw P key data))"


section \<open>The identity class OpenE2EE (src/unnamed/part_000)\<close>

text \<open>
  The fields of the class.  \<open>pgpService\<close> is the provider parameter \<open>P\<close> of every
  operation.  \<open>privateKey\<close> and \<open>publicKey\<close> are the optional fields of the source.
\<close>

record ('sk, 'pk) OpenE2EE =
  passphrase :: string
  privateKey :: "'sk option"
  privateKeyEncryptedText :: string
  publicKey :: "'pk option"
  publicKeyText :: string
  userId :: string

text \<open>The result types, imported by the source from \<open>./models\<close>; their fields are those the source reads and writes.\<close>

record MasterKeys =
  privateKey :: string
  publicKey :: string

record MessageItemEncrypted =
  key :: string
  encryptedMessage :: string

record MessageItem =
  key :: string
  data :: string

record ShareItemOut =
  senderPublicKey :: string
  receiverEncryptedMessage :: string

record ShareNewItemOut = ShareItemOut +
  senderEncryptedMessage :: string

text \<open>The constructor: the field initialisers, and the two arguments stored.\<close>

definition new_OpenE2EE :: "string \<Rightarrow> string \<Rightarrow> ('sk, 'pk) OpenE2EE" where
  "new_OpenE2EE uid pass =
     \<lparr> passphrase = pass,
       OpenE2EE.privateKey = None,
       privateKeyEncryptedText = [],
       OpenE2EE.publicKey = None,
       publicKeyText = [],
       userId = uid \<rparr>"

text \<open>
  \<open>build\<close> and \<open>load\<close> assign the fields of \<open>this\<close>.  They return the outcome together
  with the state of the object after the call, so that what a failed call leaves behind
  is part of the model.  The operations that call \<open>Promise.all\<close> take the timing \<open>race\<close>.
\<close>

definition build ::
  "('w, 'sk, 'pk) openpgp \<Rightarrow> nat \<Rightarrow> ('sk, 'pk) OpenE2EE \<Rightarrow> 'w \<Rightarrow> ((failure + unit) \<times> ('sk, 'pk) OpenE2EE) \<times> 'w" where
  "build P race this w =
     (case pgp_generateKeyPair P (passphrase this) (userId this) w of
        (Inl e, w') \<Rightarrow> ((Inl e, this), w')
      | (Inr (privateKey', publicKey'), w') \<Rightarrow>
          (case Promise_all2 race (pgp_decryptPrivateKey P privateKey' (passphrase this))
                                  (pgp_readPublicKey P publicKey') of
             Inl e \<Rightarrow> ((Inl e, this), w')
           | Inr (privateKeyObj, publicKeyObj) \<Rightarrow>
               ((Inr (),
                 this\<lparr> OpenE2EE.privateKey := Some privateKeyObj,
                       OpenE2EE.publicKey := Some publicKeyObj,
                       privateKeyEncryptedText := privateKey',
                       publicKeyText := publicKey' \<rparr>), w')))"

definition load ::
  "('w, 'sk, 'pk) openpgp \<Rightarrow> nat \<Rightarrow> ('sk, 'pk) OpenE2EE \<Rightarrow> string \<Rightarrow> string \<Rightarrow> (failure + unit) \<times> ('sk, 'pk) OpenE2EE" where
  "load P race this encryptedPrivateKey publicKey' =
     (case Promise_all2 race (pgp_decryptPrivateKey P encryptedPrivateKey (passphrase this))
                             (pgp_readPublicKey P publicKey') of
        Inl e \<Rightarrow> (Inl e, this)
      | Inr (privateKeyObj, publicKeyObj) \<Rightarrow>
          (Inr (),
           this\<lparr> OpenE2EE.privateKey := Some privateKeyObj,
                 OpenE2EE.publicKey := Some publicKeyObj,
                 privateKeyEncryptedText := encryptedPrivateKey,
                 publicKeyText := publicKey' \<rparr>))"

definition exportMasterKeys :: "('sk, 'pk) OpenE2EE \<Rightarrow> failure + MasterKeys" where
  "exportMasterKeys this =
     Inr \<lparr> MasterKeys.privateKey = privateKeyEncryptedText this,
           MasterKeys.publicKey = publicKeyText this \<rparr>"

definition encrypt ::
  "('w, 'sk, 'pk) openpgp \<Rightarrow> nat \<Rightarrow> ('sk, 'pk) OpenE2EE \<Rightarrow> string \<Rightarrow> 'w \<Rightarrow> (failure + MessageItemEncrypted) \<times> 'w" where
  "encrypt P race this d w =
     (case pgp_generateEncryptionKey P (OpenE2EE.publicKey this) w of
        (Inl e, w1) \<Rightarrow> (Inl e, w1)
      | (Inr k, w1) \<Rightarrow>
          (case Promise_all2W race
                  (pgp_encryptAsymmetric P (OpenE2EE.privateKey this) [OpenE2EE.publicKey this] k)
                  (pgp_encrypt P k d) w1 of
             (Inl e, w2) \<Rightarrow> (Inl e, w2)
           | (Inr (encryptedKey, encryptedData), w2) \<Rightarrow>
               (Inr \<lparr> MessageItemEncrypted.key = k,
                      encryptedMessage = writeEncryptedMessage encryptedKey encryptedData \<rparr>, w2)))"

definition decrypt ::
  "('w, 'sk, 'pk) openpgp \<Rightarrow> nat \<Rightarrow> ('sk, 'pk) OpenE2EE \<Rightarrow> string \<Rightarrow> string list \<Rightarrow> failure + MessageItem" where
  "decrypt P race this encryptedMessage' externalEncryptionKeys =
     (case readEncryptedMessage encryptedMessage' of
        Inl e \<Rightarrow> Inl e
      | Inr (encryptedKey, encryptedData) \<Rightarrow>
          (case Promise_all race (map (pgp_readPublicKey P) externalEncryptionKeys) of
             Inl e \<Rightarrow> Inl e
           | Inr externalEncryptionKeysObj \<Rightarrow>
               (case pgp_decryptAsymmetric P (OpenE2EE.privateKey this)
                       (OpenE2EE.publicKey this # map Some externalEncryptionKeysObj)
                       encryptedKey of
                  Inl e \<Rightarrow> Inl e
                | Inr k \<Rightarrow>
                    (case pgp_decrypt P k encryptedData of
                       Inl e \<Rightarrow> Inl e
                     | Inr d \<Rightarrow> Inr \<lparr> MessageItem.key = k, data = d \<rparr>))))"

definition share ::
  "('w, 'sk, 'pk) openpgp \<Rightarrow> ('sk, 'pk) OpenE2EE \<Rightarrow> string \<Rightarrow> string \<Rightarrow> 'w \<Rightarrow> (failure + ShareItemOut) \<times> 'w" where
  "share P this receiverPublicKey encryptedMessage' w =
     (case readEncryptedMessage encryptedMessage' of
        Inl e \<Rightarrow> (Inl e, w)
      | Inr (encryptedKey, encryptedData) \<Rightarrow>
          (case pgp_readPublicKey P receiverPublicKey of
             Inl e \<Rightarrow> (Inl e, w)
           | Inr receiverPublicKeyObj \<Rightarrow>
               (case pgp_decryptAsymmetric P (OpenE2EE.privateKey this)
                       [OpenE2EE.publicKey this] encryptedKey of
                  Inl e \<Rightarrow> (Inl e, w)
                | Inr sharedKey \<Rightarrow>
                    (case pgp_encryptAsymmetric P (OpenE2EE.privateKey this)
                            [OpenE2EE.publicKey this, Some receiverPublicKeyObj] sharedKey w of
                       (Inl e, w') \<Rightarrow> (Inl e, w')
                     | (Inr receiverEncryptedKey, w') \<Rightarrow>
                         (Inr \<lparr> senderPublicKey = publicKeyText this,
                                receiverEncryptedMessage =
                                  writeEncryptedMessage receiverEncryptedKey encryptedData \<rparr>, w')))))"

definition shareNew ::
  "('w, 'sk, 'pk) openpgp \<Rightarrow> nat \<Rightarrow> ('sk, 'pk) OpenE2EE \<Rightarrow> string \<Rightarrow> string \<Rightarrow> 'w \<Rightarrow> (failure + ShareNewItemOut) \<times> 'w" where
  "shareNew P race this receiverPublicKey d w =
     (case pgp_readPublicKey P receiverPublicKey of
        Inl e \<Rightarrow> (Inl e, w)
      | Inr receiverPublicKeyObj \<Rightarrow>
          (case encrypt P race this d w of
             (Inl e, w1) \<Rightarrow> (Inl e, w1)
           | (Inr enc, w1) \<Rightarrow>
               (case pgp_encryptAsymmetric P (OpenE2EE.privateKey this)
                       [Some receiverPublicKeyObj] (MessageItemEncrypted.key enc) w1 of
                  (Inl e, w2) \<Rightarrow> (Inl e, w2)
                | (Inr receiverEncryptedKey, w2) \<Rightarrow>
                    (case readEncryptedMessage (encryptedMessage enc) of
                       Inl e \<Rightarrow> (Inl e, w2)
                     | Inr (encryptedKey, encryptedData) \<Rightarrow>
                         (Inr \<lparr> senderPublicKey = publicKeyText this,
                                receiverEncryptedMessage =
                                  writeEncryptedMessage receiverEncryptedKey encryptedData,
                                senderEncryptedMessage = encryptedMessage enc \<rparr>, w2)))))"

definition receive ::
  "('w, 'sk, 'pk) openpgp \<Rightarrow> nat \<Rightarrow> ('sk, 'pk) OpenE2EE \<Rightarrow> string \<Rightarrow> string \<Rightarrow> failure + MessageItem" where
  "receive P race this senderPublicKey' encryptedMessage' =
     decrypt P race this encryptedMessage' [senderPublicKey']"


section \<open>The provider contract\<close>

text \<open>
  What the orchestration relies on from the library, as laws over the provider record.
  They are hypotheses of the theorems below, never facts about a particular library.

  \<^item> \<open>law_generated\<close>: a generated key pair is well-formed, its two halves belong
    together, and the private half opens under no passphrase but the one it was generated
    with.
  \<^item> \<open>law_unlock\<close>: a private key that \<open>decryptKey\<close> returns is decrypted and is the
    same key.
  \<^item> \<open>law_asymmetric\<close>: a message encrypted and signed by \<open>og_encrypt_keys\<close> is opened by
    the decrypted private key of any of its recipients; with \<open>expectSigned\<close>, what
    comes back is the text as a text message returns it (below) when the signer's public
    key is among the verification keys, and a \<open>SignatureVerificationError\<close> otherwise.
  \<^item> \<open>law_symmetric\<close>: password decryption under the password of the encryption
    returns the text as a text message returns it (below).
  \<^item> \<open>law_absent\<close>: the library rejects \<open>undefined\<close> where a recipient key or the
    decryption key is expected.
\<close>

text \<open>
  The messages are text messages.  The library writes a text with canonical line ends and,
  when it reads the text back, turns every carriage return that is followed by a line
  feed into nothing (its \<open>util.nativeEOL\<close>): what comes back for a plaintext \<open>d\<close> is
  \<open>nativeEOL d\<close>, which is \<open>d\<close> with every CR LF replaced by LF, and is \<open>d\<close> itself when
  \<open>d\<close> has no CR LF.  Strings are texts that the UTF-8 encoding carries unchanged.
\<close>

definition CR :: char where
  "CR = CHR 0x0D"

definition LF :: char where
  "LF = CHR 0x0A"

fun nativeEOL :: "string \<Rightarrow> string" where
  "nativeEOL (c # d # s) =
     (if c = CR \<and> d = LF then LF # nativeEOL s else c # nativeEOL (d # s))"
| "nativeEOL s = s"

text \<open>The text has a carriage return that is immediately followed by a line feed.\<close>

fun has_CRLF :: "string \<Rightarrow> bool" where
  "has_CRLF (c # d # s) = ((c = CR \<and> d = LF) \<or> has_CRLF (d # s))"
| "has_CRLF s = False"

definition law_generated :: "('w, 'sk, 'pk) openpgp \<Rightarrow> bool" where
  "law_generated P \<longleftrightarrow>
     (\<forall>q u w priv pub w'.
        og_generateKey P q u w = (Inr (priv, pub), w') \<longrightarrow>
        (\<exists>lk. og_readPrivateKey P priv = Inr lk \<and>
              og_readKey P pub = Inr (og_toPublic P lk) \<and>
              (\<forall>p. p \<noteq> q \<longrightarrow> og_decryptKey P lk p = Inl AuthenticationError)))"

definition law_unlock :: "('w, 'sk, 'pk) openpgp \<Rightarrow> bool" where
  "law_unlock P \<longleftrightarrow>
     (\<forall>lk p sk.
        og_decryptKey P lk p = Inr sk \<longrightarrow>
        og_isDecrypted P sk \<and> og_toPublic P sk = og_toPublic P lk)"

definition law_asymmetric :: "('w, 'sk, 'pk) openpgp \<Rightarrow> bool" where
  "law_asymmetric P \<longleftrightarrow>
     (\<forall>signer rs d w c w' sk vks.
        og_encrypt_keys P (Some signer) rs d w = (Inr c, w') \<longrightarrow>
        og_isDecrypted P sk \<longrightarrow>
        Some (og_toPublic P sk) \<in> set rs \<longrightarrow>
        None \<notin> set vks \<longrightarrow>
        og_decrypt_keys P (Some sk) vks c =
          (if Some (og_toPublic P signer) \<in> set vks then Inr (nativeEOL d)
           else Inl SignatureVerificationError))"

definition law_symmetric :: "('w, 'sk, 'pk) openpgp \<Rightarrow> bool" where
  "law_symmetric P \<longleftrightarrow>
     (\<forall>k d w c w'. og_encrypt_pw P k d w = (Inr c, w') \<longrightarrow> og_decrypt_pw P k c = Inr (nativeEOL d))"

definition law_absent :: "('w, 'sk, 'pk) openpgp \<Rightarrow> bool" where
  "law_absent P \<longleftrightarrow>
     (\<forall>signer rs d w. None \<in> set rs \<longrightarrow> isl (fst (og_encrypt_keys P signer rs d w))) \<and>
     (\<forall>vks c. isl (og_decrypt_keys P None vks c))"

definition provider_contract :: "('w, 'sk, 'pk) openpgp \<Rightarrow> bool" where
  "provider_contract P \<longleftrightarrow>
     law_generated P \<and> law_unlock P \<and> law_asymmetric P \<and> law_symmetric P \<and> law_absent P"

text \<open>
  An armored private key and an armored public key belong together when both parse and
  the second is the public half of the first.
\<close>

definition matching_keys :: "('w, 'sk, 'pk) openpgp \<Rightarrow> string \<Rightarrow> string \<Rightarrow> bool" where
  "matching_keys P encryptedPrivateKey publicKey' =
     (case og_readPrivateKey P encryptedPrivateKey of
        Inl e \<Rightarrow> False
      | Inr lk \<Rightarrow> og_readKey P publicKey' = Inr (og_toPublic P lk))"

text \<open>
  The state that a completed \<open>build\<close>, or a completed \<open>load\<close> of keys that belong
  together, leaves behind: both handles present, the private key decrypted, the public
  handle its public half and the parse of the stored public-key text.
\<close>

definition holds_key_pair :: "('w, 'sk, 'pk) openpgp \<Rightarrow> ('sk, 'pk) OpenE2EE \<Rightarrow> bool" where
  "holds_key_pair P this =
     (case OpenE2EE.privateKey this of
        None \<Rightarrow> False
      | Some sk \<Rightarrow>
          og_isDecrypted P sk \<and>
          OpenE2EE.publicKey this = Some (og_toPublic P sk) \<and>
          og_readKey P (publicKeyText this) = Inr (og_toPublic P sk))"


section \<open>A reference provider\<close>

text \<open>
  A small provider that meets the contract.  It shows that the contract can be met, and
  the concrete runs below are computed with it.  It has no cryptographic strength: a key
  is named by one character, the random source is a tape of characters, and a ciphertext
  is its own description, packed with the codec.  Decryption returns the text as the
  library's text messages do, with \<open>nativeEOL\<close> applied.
\<close>

datatype toy_key = Locked char string | Unlocked char

definition toy_generateKey :: "string \<Rightarrow> string \<Rightarrow> string \<Rightarrow> (provider_error + string \<times> string) \<times> string" where
  "toy_generateKey q u w =
     (case w of
        [] \<Rightarrow> (Inl KeyGenerationError, [])
      | c # w' \<Rightarrow> (Inr (''SEC'' @ c # q, ''PUB'' @ [c]), w'))"

definition toy_generateSessionKey :: "char option \<Rightarrow> string \<Rightarrow> (provider_error + nat list) \<times> string" where
  "toy_generateSessionKey pk w =
     (case w of
        [] \<Rightarrow> (Inl DerivationError, [])
      | c # w' \<Rightarrow> (Inr [of_char c], w'))"

definition toy_readKey :: "string \<Rightarrow> provider_error + char" where
  "toy_readKey s = (if length s = 4 \<and> take 3 s = ''PUB'' then Inr (s ! 3) else Inl KeyParseError)"

definition toy_readPrivateKey :: "string \<Rightarrow> provider_error + toy_key" where
  "toy_readPrivateKey s =
     (if 4 \<le> length s \<and> take 3 s = ''SEC'' then Inr (Locked (s ! 3) (drop 4 s))
      else Inl KeyParseError)"

definition toy_decryptKey :: "toy_key \<Rightarrow> string \<Rightarrow> provider_error + toy_key" where
  "toy_decryptKey k p =
     (case k of
        Locked c q \<Rightarrow> if p = q then Inr (Unlocked c) else Inl AuthenticationError
      | Unlocked c \<Rightarrow> Inl AuthenticationError)"

definition toy_encrypt_keys ::
  "toy_key option \<Rightarrow> char option list \<Rightarrow> string \<Rightarrow> string \<Rightarrow> (provider_error + string) \<times> string" where
  "toy_encrypt_keys signer rs d w =
     (if rs = [] \<or> None \<in> set rs then (Inl EncryptionError, w)
      else case signer of
             None \<Rightarrow> (Inr (writeEncryptedMessage (map the rs) (writeEncryptedMessage [] d)), w)
           | Some (Locked c q) \<Rightarrow> (Inl EncryptionError, w)
           | Some (Unlocked c) \<Rightarrow>
               (Inr (writeEncryptedMessage (map the rs) (writeEncryptedMessage [c] d)), w))"

definition toy_decrypt_keys ::
  "toy_key option \<Rightarrow> char option list \<Rightarrow> string \<Rightarrow> provider_error + string" where
  "toy_decrypt_keys sk vks c =
     (case sk of
        Some (Unlocked k) \<Rightarrow>
          (case readEncryptedMessage c of
             Inl e \<Rightarrow> Inl DecryptionError
           | Inr (rs, body) \<Rightarrow>
               if k \<notin> set rs then Inl DecryptionError
               else (case readEncryptedMessage body of
                       Inl e \<Rightarrow> Inl DecryptionError
                     | Inr (sg, d) \<Rightarrow>
                         if length sg = 1 \<and> None \<notin> set vks \<and> Some (hd sg) \<in> set vks
                         then Inr (nativeEOL d) else Inl SignatureVerificationError))
      | _ \<Rightarrow> Inl DecryptionError)"

definition toy_encrypt_pw :: "string \<Rightarrow> string \<Rightarrow> string \<Rightarrow> (provider_error + string) \<times> string" where
  "toy_encrypt_pw k d w = (Inr (writeEncryptedMessage k d), w)"

definition toy_decrypt_pw :: "string \<Rightarrow> string \<Rightarrow> provider_error + string" where
  "toy_decrypt_pw k c =
     (case readEncryptedMessage c of
        Inl e \<Rightarrow> Inl DecryptionError
      | Inr (k', d) \<Rightarrow> if k' = k then Inr (nativeEOL d) else Inl DecryptionError)"

definition toy_toPublic :: "toy_key \<Rightarrow> char" where
  "toy_toPublic k = (case k of Locked c q \<Rightarrow> c | Unlocked c \<Rightarrow> c)"

definition toy_isDecrypted :: "toy_key \<Rightarrow> bool" where
  "toy_isDecrypted k = (case k of Locked c q \<Rightarrow> False | Unlocked c \<Rightarrow> True)"

definition toy :: "(string, toy_key, char) openpgp" where
  "toy =
     \<lparr> og_generateKey = toy_generateKey,
       og_generateSessionKey = toy_generateSessionKey,
       og_readKey = toy_readKey,
       og_readPrivateKey = toy_readPrivateKey,
       og_decryptKey = toy_decryptKey,
       og_encrypt_keys = toy_encrypt_keys,
       og_decrypt_keys = toy_decrypt_keys,
       og_encrypt_pw = toy_encrypt_pw,
       og_decrypt_pw = toy_decrypt_pw,
       og_toPublic = toy_toPublic,
       og_isDecrypted = toy_isDecrypted \<rparr>"


section \<open>Readiness\<close>

text \<open>
  How an identity became ready: \<open>Inl w\<close> is a completed \<open>build\<close> that started from the
  random state \<open>w\<close>; \<open>Inr (encryptedPrivateKey, publicKey)\<close> is a completed \<open>load\<close> of
  an armored private key and an armored public key that belong together.
\<close>

definition completed ::
  "('w, 'sk, 'pk) openpgp \<Rightarrow> nat \<Rightarrow> ('sk, 'pk) OpenE2EE \<Rightarrow> 'w + string \<times> string \<Rightarrow> ('sk, 'pk) OpenE2EE \<Rightarrow> bool" where
  "completed P race this0 how this =
     (case how of
        Inl w \<Rightarrow> fst (build P race this0 w) = (Inr (), this)
      | Inr (encryptedPrivateKey, publicKey') \<Rightarrow>
          matching_keys P encryptedPrivateKey publicKey' \<and>
          load P race this0 encryptedPrivateKey publicKey' = (Inr (), this))"


section \<open>Concrete identities\<close>

text \<open>
  Identities over the reference provider: \<open>alice\<close>, \<open>bob\<close> and \<open>carol\<close> are built,
  \<open>crossed\<close> is loaded from the private key that \<open>bob\<close> exports and the public key that
  \<open>carol\<close> exports.  \<open>fresh\<close> is an identity right after construction.
\<close>

definition alice :: "(toy_key, char) OpenE2EE" where
  "alice = snd (fst (build toy 0 (new_OpenE2EE ''alice'' ''pwA'') ''A''))"

definition bob :: "(toy_key, char) OpenE2EE" where
  "bob = snd (fst (build toy 0 (new_OpenE2EE ''bob'' ''pwB'') ''B''))"




definition alice_note :: "string \<Rightarrow> MessageItemEncrypted" where
  "alice_note d =
     \<lparr> MessageItemEncrypted.key = ''6b'',
       encryptedMessage =
         writeEncryptedMessage (writeEncryptedMessage ''A'' (writeEncryptedMessage ''A'' ''6b''))
           (writeEncryptedMessage ''6b'' d) \<rparr>"

definition alice_share :: "string \<Rightarrow> ShareItemOut" where
  "alice_share d =
     \<lparr> senderPublicKey = ''PUBA'',
       receiverEncryptedMessage =
         writeEncryptedMessage (writeEncryptedMessage ''AB'' (writeEncryptedMessage ''A'' ''6b''))
           (writeEncryptedMessage ''6b'' d) \<rparr>"


definition bob_note :: MessageItemEncrypted where
  "bob_note =
     \<lparr> MessageItemEncrypted.key = ''6b'',
       encryptedMessage =
         writeEncryptedMessage (writeEncryptedMessage ''B'' (writeEncryptedMessage ''B'' ''6b''))
           (writeEncryptedMessage ''6b'' ''hi'') \<rparr>"




definition fresh :: "(toy_key, char) OpenE2EE" where
  "fresh = new_OpenE2EE ''dave'' ''pwD''"


section \<open>The codec is reversible\<close>

lemma digit_char_ok: "d < 10 \<Longrightarrow> is_digit (digit_char d) \<and> digit_val (digit_char d) = d"
  by (simp add: is_digit_def digit_val_def digit_char_def)

lemma digits_all: "c \<in> set (digits n) \<Longrightarrow> is_digit c"
proof (induction n arbitrary: c rule: digits.induct)
  case (1 n)
  show ?case
  proof (cases "n < 10")
    case True
    with "1.prems" show ?thesis by (simp add: digits.simps [of n] digit_char_ok)
  next
    case False
    with "1.prems" "1.IH" show ?thesis
      by (auto simp add: digits.simps [of n] digit_char_ok)
  qed
qed

lemma digits_nonempty: "digits n \<noteq> []"
  by (simp add: digits.simps [of n])

lemma number_digits: "number (digits n) = n"
proof (induction n rule: digits.induct)
  case (1 n)
  show ?case
  proof (cases "n < 10")
    case True
    then show ?thesis by (simp add: digits.simps [of n] number_def digit_char_ok)
  next
    case False
    with "1.IH" have "number (digits (n div 10)) = n div 10" by simp
    with False show ?thesis
      by (simp add: digits.simps [of n] number_def digit_char_ok)
  qed
qed

lemma colon_not_digit: "\<not> is_digit CHR '':''"
  by (simp add: is_digit_def)

lemma read_write: "readEncryptedMessage (writeEncryptedMessage a b) = Inr (a, b)"
proof -
  have tw: "takeWhile is_digit (digits (length a) @ CHR '':'' # a @ b) = digits (length a)"
    using digits_all by (simp add: takeWhile_append2 colon_not_digit)
  have dw: "dropWhile is_digit (digits (length a) @ CHR '':'' # a @ b) = CHR '':'' # a @ b"
    using digits_all by (simp add: colon_not_digit)
  show ?thesis
    by (simp add: readEncryptedMessage_def writeEncryptedMessage_def tw dw
        digits_nonempty number_digits)
qed


section \<open>Text messages and session keys\<close>


lemma nativeEOL_length: "length (nativeEOL s) \<le> length s"
  by (induction s rule: nativeEOL.induct) auto

lemma nativeEOL_fixed: "nativeEOL s = s \<longleftrightarrow> \<not> has_CRLF s"
proof (induction s rule: nativeEOL.induct)
  case (1 c d s)
  show ?case
  proof (cases "c = CR \<and> d = LF")
    case True
    have "length (LF # nativeEOL s) < length (c # d # s)"
      using nativeEOL_length [of s] by simp
    then have "LF # nativeEOL s \<noteq> c # d # s" by auto
    with True show ?thesis by simp
  next
    case False
    with 1 show ?thesis by auto
  qed
qed simp_all



lemmas pgp_defs =
  pgp_generateKeyPair_def pgp_generateEncryptionKey_def pgp_readPublicKey_def
  pgp_readPrivateKey_def pgp_decryptPrivateKey_def pgp_encryptAsymmetric_def
  pgp_decryptAsymmetric_def pgp_encrypt_def pgp_decrypt_def
  tryCatch_def tryCatchW_def thrown_def thrownW_def


lemmas toy_defs =
  toy_generateKey_def toy_generateSessionKey_def toy_readKey_def toy_readPrivateKey_def
  toy_decryptKey_def toy_encrypt_keys_def toy_decrypt_keys_def toy_encrypt_pw_def
  toy_decrypt_pw_def toy_toPublic_def toy_isDecrypted_def

lemma toy_law_generated: "law_generated toy"
  by (auto simp add: law_generated_def toy_def toy_defs split: list.splits)

lemma toy_law_unlock: "law_unlock toy"
  by (auto simp add: law_unlock_def toy_def toy_defs split: toy_key.splits if_splits)

lemma toy_law_symmetric: "law_symmetric toy"
  by (auto simp add: law_symmetric_def toy_def toy_defs read_write)

lemma toy_law_absent: "law_absent toy"
  by (auto simp add: law_absent_def toy_def toy_defs)

lemma toy_law_asymmetric: "law_asymmetric toy"
  unfolding law_asymmetric_def
proof (intro allI impI)
  fix signer rs d w c w' sk and vks :: "char option list"
  assume enc: "og_encrypt_keys toy (Some signer) rs d w = (Inr c, w')"
    and dec: "og_isDecrypted toy sk"
    and rcp: "Some (og_toPublic toy sk) \<in> set rs"
    and vk: "None \<notin> set vks"
  from dec obtain k where sk: "sk = Unlocked k"
    by (cases sk) (simp_all add: toy_def toy_isDecrypted_def)
  from enc obtain s where sg: "signer = Unlocked s" and nn: "None \<notin> set rs"
    and c: "c = writeEncryptedMessage (map the rs) (writeEncryptedMessage [s] d)"
    by (cases signer) (auto simp add: toy_def toy_encrypt_keys_def split: if_splits)
  from rcp sk have "k \<in> set (map the rs)"
    by (force simp add: toy_def toy_toPublic_def)
  with sk sg c vk show "og_decrypt_keys toy (Some sk) vks c =
      (if Some (og_toPublic toy signer) \<in> set vks then Inr (nativeEOL d)
       else Inl SignatureVerificationError)"
    by (simp add: toy_def toy_decrypt_keys_def toy_toPublic_def read_write)
qed

lemma toy_contract: "provider_contract toy"
  by (simp add: provider_contract_def toy_law_generated toy_law_unlock toy_law_asymmetric
      toy_law_symmetric toy_law_absent)

section \<open>Promise.all\<close>


lemma Promise_all2_Inr:
  "Promise_all2 race ra rb = Inr (a, b) \<longleftrightarrow> ra = Inr a \<and> rb = Inr b"
  by (auto simp add: Promise_all2_def split: sum.splits)



lemma Promise_all2_one [simp]:
  "Promise_all2 race (Inl e) (Inr b) = Inl e"
  "Promise_all2 race (Inr a) (Inl e) = Inl e"
  "Promise_all2 race (Inr a) (Inr b) = Inr (a, b)"
  by (simp_all add: Promise_all2_def)



lemma Promise_all_single [simp]: "Promise_all race [r] = (case r of Inl e \<Rightarrow> Inl e | Inr x \<Rightarrow> Inr [x])"
  by (cases r) (simp_all add: Promise_all_def first_rejection_def)

lemma Promise_all_Nil [simp]: "Promise_all race [] = Inr []"
  by (simp add: Promise_all_def)


section \<open>What the operations do when they succeed\<close>

lemma encrypt_InrD:
  assumes "encrypt P race this d w = (Inr out, w')"
  shows "\<exists>k w1 ck w2 cd.
           pgp_generateEncryptionKey P (OpenE2EE.publicKey this) w = (Inr k, w1) \<and>
           pgp_encryptAsymmetric P (OpenE2EE.privateKey this) [OpenE2EE.publicKey this] k w1 = (Inr ck, w2) \<and>
           pgp_encrypt P k d w2 = (Inr cd, w') \<and>
           out = \<lparr> MessageItemEncrypted.key = k, encryptedMessage = writeEncryptedMessage ck cd \<rparr>"
  using assms
  by (auto simp add: encrypt_def Promise_all2W_def Promise_all2_Inr
      split: prod.splits sum.splits)

lemma share_InrD:
  assumes "share P this r env w = (Inr out, w')"
  shows "\<exists>ck cd rk k ck'.
           readEncryptedMessage env = Inr (ck, cd) \<and>
           pgp_readPublicKey P r = Inr rk \<and>
           pgp_decryptAsymmetric P (OpenE2EE.privateKey this) [OpenE2EE.publicKey this] ck = Inr k \<and>
           pgp_encryptAsymmetric P (OpenE2EE.privateKey this) [OpenE2EE.publicKey this, Some rk] k w = (Inr ck', w') \<and>
           out = \<lparr> senderPublicKey = publicKeyText this,
                   receiverEncryptedMessage = writeEncryptedMessage ck' cd \<rparr>"
  using assms
  by (auto simp add: share_def split: prod.splits sum.splits)


lemma pgp_readPublicKey_Inr: "pgp_readPublicKey P s = Inr pk \<longleftrightarrow> og_readKey P s = Inr pk"
  by (simp add: pgp_defs split: sum.splits)

lemma pgp_encryptAsymmetric_Inr:
  "pgp_encryptAsymmetric P sk rs d w = (Inr c, w') \<longleftrightarrow> og_encrypt_keys P sk rs d w = (Inr c, w')"
  by (auto simp add: pgp_defs split: sum.splits prod.splits)

lemma pgp_encrypt_Inr:
  "pgp_encrypt P k d w = (Inr c, w') \<longleftrightarrow> og_encrypt_pw P k d w = (Inr c, w')"
  by (auto simp add: pgp_defs split: sum.splits prod.splits)

lemma pgp_decryptAsymmetric_Inr:
  "pgp_decryptAsymmetric P sk vks c = Inr d \<longleftrightarrow> og_decrypt_keys P sk vks c = Inr d"
  by (simp add: pgp_defs split: sum.splits)

lemma pgp_decrypt_Inr: "pgp_decrypt P k c = Inr d \<longleftrightarrow> og_decrypt_pw P k c = Inr d"
  by (simp add: pgp_defs split: sum.splits)

lemma holds_key_pairD:
  assumes "holds_key_pair P this"
  shows "\<exists>sk. OpenE2EE.privateKey this = Some sk \<and> og_isDecrypted P sk \<and>
              OpenE2EE.publicKey this = Some (og_toPublic P sk) \<and>
              og_readKey P (publicKeyText this) = Inr (og_toPublic P sk)"
  using assms by (auto simp add: holds_key_pair_def split: option.splits)

lemma build_key_pair:
  assumes "law_generated P" and "law_unlock P" and "build P race this0 w = ((Inr (), this), w')"
  shows "holds_key_pair P this"
proof -
  from assms(3) obtain priv pub sk pk where
    gen: "pgp_generateKeyPair P (passphrase this0) (userId this0) w = (Inr (priv, pub), w')"
    and dk: "pgp_decryptPrivateKey P priv (passphrase this0) = Inr sk"
    and rk: "pgp_readPublicKey P pub = Inr pk"
    and st: "this = this0\<lparr> OpenE2EE.privateKey := Some sk, OpenE2EE.publicKey := Some pk,
                 privateKeyEncryptedText := priv, publicKeyText := pub \<rparr>"
    by (auto simp add: build_def Promise_all2_Inr split: prod.splits sum.splits)
  from gen have "\<exists>w0. og_generateKey P (passphrase this0) (userId this0) w = (Inr (priv, pub), w0)"
    by (auto simp add: pgp_defs split: prod.splits sum.splits)
  with assms(1) obtain lk where lk: "og_readPrivateKey P priv = Inr lk"
    and pub: "og_readKey P pub = Inr (og_toPublic P lk)"
    unfolding law_generated_def by blast
  from dk lk have "og_decryptKey P lk (passphrase this0) = Inr sk"
    by (simp add: pgp_defs split: sum.splits)
  with assms(2) have sk: "og_isDecrypted P sk" "og_toPublic P sk = og_toPublic P lk"
    unfolding law_unlock_def by blast+
  from rk pub have "pk = og_toPublic P lk" by (simp add: pgp_readPublicKey_Inr)
  with st sk pub show ?thesis by (simp add: holds_key_pair_def)
qed

lemma load_key_pair:
  assumes "law_unlock P" and "matching_keys P priv pub" and "load P race this0 priv pub = (Inr (), this)"
  shows "holds_key_pair P this"
proof -
  from assms(3) obtain sk pk where
    dk: "pgp_decryptPrivateKey P priv (passphrase this0) = Inr sk"
    and rk: "pgp_readPublicKey P pub = Inr pk"
    and st: "this = this0\<lparr> OpenE2EE.privateKey := Some sk, OpenE2EE.publicKey := Some pk,
                 privateKeyEncryptedText := priv, publicKeyText := pub \<rparr>"
    by (auto simp add: load_def Promise_all2_Inr split: prod.splits sum.splits)
  from assms(2) obtain lk where lk: "og_readPrivateKey P priv = Inr lk"
    and pub: "og_readKey P pub = Inr (og_toPublic P lk)"
    by (auto simp add: matching_keys_def split: sum.splits)
  from dk lk have "og_decryptKey P lk (passphrase this0) = Inr sk"
    by (simp add: pgp_defs split: sum.splits)
  with assms(1) have sk: "og_isDecrypted P sk" "og_toPublic P sk = og_toPublic P lk"
    unfolding law_unlock_def by blast+
  from rk pub have "pk = og_toPublic P lk" by (simp add: pgp_readPublicKey_Inr)
  with st sk pub show ?thesis by (simp add: holds_key_pair_def)
qed

lemma completed_key_pair:
  assumes "provider_contract P" and "completed P race this0 how this"
  shows "holds_key_pair P this"
proof (cases how)
  case (Inl w)
  with assms(2) have "build P race this0 w = ((Inr (), this), snd (build P race this0 w))"
    by (simp add: completed_def prod_eq_iff)
  with assms(1) show ?thesis
    using build_key_pair by (fastforce simp add: provider_contract_def)
next
  case (Inr kp)
  with assms show ?thesis
    using load_key_pair by (fastforce simp add: completed_def provider_contract_def split: prod.splits)
qed

text \<open>Opening an envelope.\<close>

lemma open_envelope:
  assumes law: "law_asymmetric P"
    and B: "holds_key_pair P this"
    and wrap: "og_encrypt_keys P (Some signer) rs k w = (Inr ck, w1)"
    and rcp: "OpenE2EE.publicKey this \<in> set rs"
    and ext: "Promise_all race (map (pgp_readPublicKey P) xs) = Inr objs"
  shows "decrypt P race this (writeEncryptedMessage ck cd) xs =
           (if Some (og_toPublic P signer) \<in> set (OpenE2EE.publicKey this # map Some objs)
            then (case pgp_decrypt P (nativeEOL k) cd of
                    Inl e \<Rightarrow> Inl e
                  | Inr d' \<Rightarrow> Inr \<lparr> MessageItem.key = nativeEOL k, data = d' \<rparr>)
            else Inl (Tagged ''pgp.decryptAsymmetric'' (Provider SignatureVerificationError)))"
proof -
  from B obtain sk where sk: "OpenE2EE.privateKey this = Some sk" "og_isDecrypted P sk"
    "OpenE2EE.publicKey this = Some (og_toPublic P sk)"
    using holds_key_pairD by blast
  have nn: "None \<notin> set (OpenE2EE.publicKey this # map Some objs)"
    using sk by auto
  from law wrap sk rcp nn
  have "og_decrypt_keys P (Some sk) (OpenE2EE.publicKey this # map Some objs) ck =
      (if Some (og_toPublic P signer) \<in> set (OpenE2EE.publicKey this # map Some objs)
       then Inr (nativeEOL k) else Inl SignatureVerificationError)"
    unfolding law_asymmetric_def by metis
  then show ?thesis
    using sk ext
    by (simp add: decrypt_def read_write pgp_decryptAsymmetric_def tryCatch_def thrown_def)
qed

lemma open_text_envelope:
  assumes law: "law_asymmetric P" "law_symmetric P"
    and B: "holds_key_pair P this"
    and wrap: "og_encrypt_keys P (Some signer) rs k w = (Inr ck, w1)"
    and rcp: "OpenE2EE.publicKey this \<in> set rs"
    and key: "nativeEOL k = k"
    and bulk: "og_encrypt_pw P k d w2 = (Inr cd, w3)"
    and ext: "Promise_all race (map (pgp_readPublicKey P) xs) = Inr objs"
  shows "decrypt P race this (writeEncryptedMessage ck cd) xs =
           (if Some (og_toPublic P signer) \<in> set (OpenE2EE.publicKey this # map Some objs)
            then Inr \<lparr> MessageItem.key = k, data = nativeEOL d \<rparr>
            else Inl (Tagged ''pgp.decryptAsymmetric'' (Provider SignatureVerificationError)))"
proof -
  from law(2) bulk have "og_decrypt_pw P k cd = Inr (nativeEOL d)"
    unfolding law_symmetric_def by blast
  then have "pgp_decrypt P k cd = Inr (nativeEOL d)"
    by (simp add: pgp_decrypt_Inr)
  with open_envelope [OF law(1) B wrap rcp ext, of cd] key show ?thesis
    by simp
qed


lemma new_absent:
  "OpenE2EE.privateKey (new_OpenE2EE uid pass) = None"
  "OpenE2EE.publicKey (new_OpenE2EE uid pass) = None"
  by (simp_all add: new_OpenE2EE_def)

lemma wrong_passphrase_rejected:
  assumes "law_generated P"
    and "og_generateKey P q u w0 = (Inr (encryptedPrivateKey, pub), w1)"
    and "passphrase this \<noteq> q"
  shows "pgp_decryptPrivateKey P encryptedPrivateKey (passphrase this) =
           Inl (Tagged ''pgp.decryptPrivateKey'' (Provider AuthenticationError))"
proof -
  from assms obtain lk where "og_readPrivateKey P encryptedPrivateKey = Inr lk"
    and "og_decryptKey P lk (passphrase this) = Inl AuthenticationError"
    unfolding law_generated_def by blast
  then show ?thesis
    by (simp add: pgp_defs)
qed

lemma load_failed_unchanged: "fst (load P race this a b) = Inl e \<Longrightarrow> snd (load P race this a b) = this"
  by (auto simp add: load_def split: sum.splits prod.splits)


section \<open>Where a failure comes from\<close>

lemma raised_in_iff: "raised_in names e \<longleftrightarrow> (\<exists>n x. e = Tagged n (Provider x) \<and> n \<in> set names)"
  by (auto simp add: raised_in_def split: failure.splits)





lemma raised_in_cause: "raised_in ns e \<Longrightarrow> cause_of e \<noteq> StateError"
  by (auto simp add: raised_in_iff)









section \<open>Absent key handles\<close>

lemma pgp_encryptAsymmetric_absent:
  assumes "law_absent P" and "None \<in> set rs"
  shows "pgp_encryptAsymmetric P sk rs k v \<noteq> (Inr c, v')"
proof -
  from assms have "isl (fst (og_encrypt_keys P sk rs k v))"
    unfolding law_absent_def by blast
  then show ?thesis
    by (auto simp add: pgp_encryptAsymmetric_Inr)
qed

lemma pgp_decryptAsymmetric_absent:
  assumes "law_absent P"
  shows "pgp_decryptAsymmetric P None vks c \<noteq> Inr k"
proof -
  from assms have "isl (og_decrypt_keys P None vks c)"
    unfolding law_absent_def by blast
  then show ?thesis
    by (auto simp add: pgp_decryptAsymmetric_Inr)
qed

lemma encrypt_absent:
  assumes "law_absent P" and "OpenE2EE.publicKey this = None"
  shows "isl (fst (encrypt P race this d w))"
proof (cases "fst (encrypt P race this d w)")
  case (Inl e)
  then show ?thesis by simp
next
  case (Inr out)
  then have "encrypt P race this d w = (Inr out, snd (encrypt P race this d w))"
    by (simp add: prod_eq_iff)
  from encrypt_InrD [OF this] assms(2) pgp_encryptAsymmetric_absent [OF assms(1), of "[None]"]
  show ?thesis by auto
qed

lemma decrypt_absent:
  assumes "law_absent P" and "OpenE2EE.privateKey this = None"
  shows "isl (decrypt P race this env xs)"
  using assms(2) pgp_decryptAsymmetric_absent [OF assms(1)]
  by (auto simp add: decrypt_def split: sum.splits prod.splits)


lemma share_absent:
  assumes "law_absent P" and "OpenE2EE.privateKey this = None"
  shows "isl (fst (share P this r env w))"
  using assms(2) pgp_decryptAsymmetric_absent [OF assms(1)]
  by (auto simp add: share_def split: sum.splits prod.splits)


lemma shareNew_absent:
  assumes "law_absent P" and "OpenE2EE.publicKey this = None"
  shows "isl (fst (shareNew P race this r d w))"
  using encrypt_absent [OF assms, of race d w]
  by (auto simp add: shareNew_def split: sum.splits prod.splits)


section \<open>Runs on the reference provider\<close>

lemmas run_defs =
  build_def load_def encrypt_def decrypt_def share_def shareNew_def receive_def
  new_OpenE2EE_def Promise_all2_def Promise_all2W_def pgp_defs toy_def toy_defs

lemma hex_k: "arrayToHexString [107] = ''6b''"
proof -
  have "hex_digit 6 = CHR ''6''" "hex_digit 11 = CHR ''b''" by code_simp+
  then show ?thesis by (simp add: arrayToHexString_def)
qed

lemma hex_not_CR [simp]: "CHR ''6'' \<noteq> CR"
  by (simp add: CR_def)

lemma toy_sel:
  "og_generateKey toy = toy_generateKey"
  "og_generateSessionKey toy = toy_generateSessionKey"
  "og_readKey toy = toy_readKey"
  "og_readPrivateKey toy = toy_readPrivateKey"
  "og_decryptKey toy = toy_decryptKey"
  "og_encrypt_keys toy = toy_encrypt_keys"
  "og_decrypt_keys toy = toy_decrypt_keys"
  "og_encrypt_pw toy = toy_encrypt_pw"
  "og_decrypt_pw toy = toy_decrypt_pw"
  "og_toPublic toy = toy_toPublic"
  "og_isDecrypted toy = toy_isDecrypted"
  by (simp_all add: toy_def)

lemma toy_session_key:
  "pgp_generateEncryptionKey toy pk ''k'' = (Inr ''6b'', [])"
  by (simp add: pgp_generateEncryptionKey_def tryCatchW_def tryCatch_def thrownW_def thrown_def
      toy_def toy_generateSessionKey_def hex_k)

lemma alice_state:
  "alice = \<lparr> passphrase = ''pwA'', OpenE2EE.privateKey = Some (Unlocked CHR ''A''),
             privateKeyEncryptedText = ''SECApwA'', OpenE2EE.publicKey = Some CHR ''A'',
             publicKeyText = ''PUBA'', userId = ''alice'' \<rparr>"
  by (simp add: alice_def run_defs)

lemma bob_state:
  "bob = \<lparr> passphrase = ''pwB'', OpenE2EE.privateKey = Some (Unlocked CHR ''B''),
           privateKeyEncryptedText = ''SECBpwB'', OpenE2EE.publicKey = Some CHR ''B'',
           publicKeyText = ''PUBB'', userId = ''bob'' \<rparr>"
  by (simp add: bob_def run_defs)




lemma bob_completed: "completed toy 0 (new_OpenE2EE ''bob'' ''pwB'') (Inl ''B'') bob"
  by (simp add: completed_def bob_state) (simp add: run_defs)

lemma toy_encrypt:
  assumes "OpenE2EE.privateKey this = Some (Unlocked s)" and "OpenE2EE.publicKey this = Some r"
  shows "encrypt toy race this d ''k'' =
           (Inr \<lparr> MessageItemEncrypted.key = ''6b'',
                  encryptedMessage =
                    writeEncryptedMessage (writeEncryptedMessage [r] (writeEncryptedMessage [s] ''6b''))
                      (writeEncryptedMessage ''6b'' d) \<rparr>, [])"
  using assms
  by (simp add: encrypt_def toy_session_key Promise_all2W_def)
     (simp add: pgp_encryptAsymmetric_def pgp_encrypt_def tryCatchW_def tryCatch_def thrownW_def
        thrown_def toy_def toy_encrypt_keys_def toy_encrypt_pw_def)




lemma bob_encrypt: "encrypt toy race bob ''hi'' ''k'' = (Inr bob_note, [])"
  using toy_encrypt [of bob "CHR ''B''" "CHR ''B''" race "''hi''"]
  by (simp add: bob_state bob_note_def)

lemma alice_share_bob:
  "share toy alice (publicKeyText bob) (encryptedMessage (alice_note d)) ''w'' = (Inr (alice_share d), ''w'')"
  by (simp add: alice_state bob_state alice_note_def alice_share_def share_def read_write
      pgp_defs toy_def toy_defs)







lemma toy_open:
  assumes "OpenE2EE.privateKey this = Some (Unlocked r)" and "OpenE2EE.publicKey this = Some p"
    and "Promise_all race (map (pgp_readPublicKey toy) xs) = Inr objs"
    and "r \<in> set rs" and "s = p \<or> s \<in> set objs"
  shows "decrypt toy race this
           (writeEncryptedMessage (writeEncryptedMessage rs (writeEncryptedMessage [s] ''6b''))
              (writeEncryptedMessage ''6b'' d)) xs =
         Inr \<lparr> MessageItem.key = ''6b'', data = nativeEOL d \<rparr>"
  using assms
  by (auto simp add: decrypt_def read_write pgp_decryptAsymmetric_def pgp_decrypt_def tryCatch_def
      thrown_def toy_sel toy_decrypt_keys_def toy_decrypt_pw_def)


lemma toy_readPublicKey: "pgp_readPublicKey toy [CHR ''P'', CHR ''U'', CHR ''B'', c] = Inr c"
  by (simp add: pgp_defs toy_def toy_readKey_def)


section \<open>Operations on an identity without key handles\<close>


lemma provider_failure_no_state_error: "provider_failure ns r \<Longrightarrow> \<not> fails_with r StateError"
  by (cases r) (auto simp add: provider_failure_def fails_with_def dest: raised_in_cause)









section \<open>Tags on the failures of the operations\<close>











section \<open>The claims\<close>

subsection \<open>C1: encrypt, then decrypt\<close>





subsection \<open>C2: share, then receive\<close>





subsection \<open>C3: the trust set of receive\<close>

text \<open>
  Claim C3, amended.  \<open>receive\<close> with a sender key and an envelope is \<open>decrypt\<close> of the
  envelope with that one external key.  \<open>decrypt\<close> always puts the identity's own public key
  first in the list of verification keys, so the trust set of \<open>receive\<close> is the receiver's
  own key and the claimed sender's key.  For a Crypto Provider that meets the contract, a
  receiver that has completed \<open>build\<close>, or \<open>load\<close> of keys that belong together, and an
  envelope whose wrapped key is encrypted for the receiver: if the wrapped key was signed
  by the claimed sender or by the receiver itself, the signature is accepted and \<open>receive\<close>
  goes on to open the data: for a session key without CR LF (every key that
  \<open>generateEncryptionKey\<close> makes is one) it returns the session key and the plaintext,
  with every CR LF of the plaintext replaced by LF; if the wrapped key was signed by any
  other key, \<open>receive\<close> fails with \<open>SignatureVerificationError\<close>, tagged
  \<open>pgp.decryptAsymmetric\<close>.
\<close>

theorem receive_trust_set:
  assumes "provider_contract P"
    and "completed P race_b B0 how B"
    and "pgp_readPublicKey P senderPublicKey' = Inr spk"
    and "pgp_encryptAsymmetric P (Some signer) rs k w = (Inr ck, w1)"
    and "OpenE2EE.publicKey B \<in> set rs"
    and "pgp_encrypt P k d w2 = (Inr cd, w3)"
  shows "receive P race B senderPublicKey' env = decrypt P race B env [senderPublicKey'] \<and>
         receive P race B senderPublicKey' (writeEncryptedMessage ck cd) =
           (if og_toPublic P signer = spk \<or> Some (og_toPublic P signer) = OpenE2EE.publicKey B
            then (if has_CRLF k
                  then (case pgp_decrypt P (nativeEOL k) cd of
                          Inl e \<Rightarrow> Inl e
                        | Inr d' \<Rightarrow> Inr \<lparr> MessageItem.key = nativeEOL k, data = d' \<rparr>)
                  else Inr \<lparr> MessageItem.key = k, data = nativeEOL d \<rparr>)
            else Inl (Tagged ''pgp.decryptAsymmetric'' (Provider SignatureVerificationError)))"
proof -
  from assms(1) have law: "law_asymmetric P" "law_symmetric P"
    by (simp_all add: provider_contract_def)
  from assms(1,2) have kp: "holds_key_pair P B" by (rule completed_key_pair)
  from assms(4) have wrap: "og_encrypt_keys P (Some signer) rs k w = (Inr ck, w1)"
    by (simp add: pgp_encryptAsymmetric_Inr)
  from assms(6) have bulk: "og_encrypt_pw P k d w2 = (Inr cd, w3)"
    by (simp add: pgp_encrypt_Inr)
  from assms(3) have ext: "Promise_all race (map (pgp_readPublicKey P) [senderPublicKey']) = Inr [spk]"
    by simp
  show ?thesis
  proof (cases "has_CRLF k")
    case True
    with open_envelope [OF law(1) kp wrap assms(5) ext, of cd] show ?thesis
      by (auto simp add: receive_def)
  next
    case False
    then have "nativeEOL k = k" by (simp add: nativeEOL_fixed)
    from open_text_envelope [OF law kp wrap assms(5) this bulk ext] False show ?thesis
      by (auto simp add: receive_def)
  qed
qed

theorem receive_trust_set_witness:
  "provider_contract toy \<and>
   completed toy 0 (new_OpenE2EE ''bob'' ''pwB'') (Inl ''B'') bob \<and>
   pgp_readPublicKey toy ''PUBA'' = Inr CHR ''A'' \<and>
   pgp_encryptAsymmetric toy (Some (Unlocked CHR ''C'')) [Some CHR ''B''] ''6b'' ''w'' =
     (Inr (writeEncryptedMessage ''B'' (writeEncryptedMessage ''C'' ''6b'')), ''w'') \<and>
   OpenE2EE.publicKey bob \<in> set [Some CHR ''B''] \<and>
   pgp_encrypt toy ''6b'' ''hi'' ''w'' = (Inr (writeEncryptedMessage ''6b'' ''hi''), ''w'') \<and>
   receive toy 0 bob ''PUBA''
     (writeEncryptedMessage (writeEncryptedMessage ''B'' (writeEncryptedMessage ''C'' ''6b''))
        (writeEncryptedMessage ''6b'' ''hi'')) =
     Inl (Tagged ''pgp.decryptAsymmetric'' (Provider SignatureVerificationError))"
proof -
  have h3: "pgp_readPublicKey toy ''PUBA'' = Inr CHR ''A''"
    by (simp add: pgp_defs toy_def toy_readKey_def)
  have h4: "pgp_encryptAsymmetric toy (Some (Unlocked CHR ''C'')) [Some CHR ''B''] ''6b'' ''w'' =
      (Inr (writeEncryptedMessage ''B'' (writeEncryptedMessage ''C'' ''6b'')), ''w'')"
    by (simp add: pgp_defs toy_def toy_encrypt_keys_def)
  have h5: "OpenE2EE.publicKey bob \<in> set [Some CHR ''B'']"
    by (simp add: bob_state)
  have h6: "pgp_encrypt toy ''6b'' ''hi'' ''w'' = (Inr (writeEncryptedMessage ''6b'' ''hi''), ''w'')"
    by (simp add: pgp_defs toy_def toy_encrypt_pw_def)
  have tp: "og_toPublic toy (Unlocked CHR ''C'') = CHR ''C''"
    by (simp add: toy_def toy_toPublic_def)
  have pb: "OpenE2EE.publicKey bob = Some CHR ''B''"
    by (simp add: bob_state)
  from receive_trust_set [OF toy_contract bob_completed h3 h4 h5 h6, THEN conjunct2, of 0]
  have "receive toy 0 bob ''PUBA''
     (writeEncryptedMessage (writeEncryptedMessage ''B'' (writeEncryptedMessage ''C'' ''6b''))
        (writeEncryptedMessage ''6b'' ''hi'')) =
     Inl (Tagged ''pgp.decryptAsymmetric'' (Provider SignatureVerificationError))"
    by (simp add: tp pb)
  with toy_contract bob_completed h3 h4 h5 h6 show ?thesis by blast
qed

text \<open>
  Claim C3 as stated fails for an envelope signed by the receiver's own key: \<open>bob\<close>
  receives, with \<open>alice\<close> as the claimed sender, the envelope that his own \<open>encrypt\<close>
  produced and signed, and gets the plaintext, not a \<open>SignatureVerificationError\<close>.
\<close>

theorem receive_own_signature_counterexample:
  "encrypt toy 0 bob ''hi'' ''k'' = (Inr bob_note, []) \<and>
   publicKeyText alice \<noteq> publicKeyText bob \<and>
   receive toy 0 bob (publicKeyText alice) (encryptedMessage bob_note) =
     Inr \<lparr> MessageItem.key = ''6b'', data = ''hi'' \<rparr>"
proof -
  have pa: "Promise_all 0 (map (pgp_readPublicKey toy) [publicKeyText alice]) = Inr [CHR ''A'']"
    by (simp add: alice_state toy_readPublicKey)
  have "receive toy 0 bob (publicKeyText alice) (encryptedMessage bob_note) =
      Inr \<lparr> MessageItem.key = ''6b'', data = ''hi'' \<rparr>"
    using toy_open [OF _ _ pa, of bob "CHR ''B''" "CHR ''B''" "''B''" "CHR ''B''" "''hi''"]
    by (simp add: bob_state bob_note_def receive_def CR_def)
  moreover have "publicKeyText alice \<noteq> publicKeyText bob"
    by (simp add: alice_state bob_state)
  ultimately show ?thesis using bob_encrypt by blast
qed


subsection \<open>C4: share leaves the encrypted data alone\<close>

text \<open>
  Claim C4.  Whenever \<open>share\<close> returns (for any provider and any state of the identity):
  the input envelope unpacks to a wrapped key and an encrypted-data blob; the returned
  envelope unpacks to a new wrapped key and the same encrypted-data blob; the new wrapped
  key is the result of \<open>pgp_encryptAsymmetric\<close> with the sharer's private key as the
  signing key and the sharer's public key and the receiver's parsed key as the recipients,
  applied to the session key that \<open>pgp_decryptAsymmetric\<close> recovered from the old wrapped
  key under the sharer's own public key; and the sender key returned is the sharer's
  public key text.
\<close>

theorem share_keeps_encrypted_data:
  assumes "share P this receiverPublicKey' env w = (Inr out, w')"
  shows "\<exists>ck cd rk k ck'.
           readEncryptedMessage env = Inr (ck, cd) \<and>
           readEncryptedMessage (receiverEncryptedMessage out) = Inr (ck', cd) \<and>
           pgp_readPublicKey P receiverPublicKey' = Inr rk \<and>
           pgp_decryptAsymmetric P (OpenE2EE.privateKey this) [OpenE2EE.publicKey this] ck = Inr k \<and>
           pgp_encryptAsymmetric P (OpenE2EE.privateKey this)
             [OpenE2EE.publicKey this, Some rk] k w = (Inr ck', w') \<and>
           senderPublicKey out = publicKeyText this"
proof -
  from share_InrD [OF assms] obtain ck cd rk k ck' where
    "readEncryptedMessage env = Inr (ck, cd)"
    "pgp_readPublicKey P receiverPublicKey' = Inr rk"
    "pgp_decryptAsymmetric P (OpenE2EE.privateKey this) [OpenE2EE.publicKey this] ck = Inr k"
    "pgp_encryptAsymmetric P (OpenE2EE.privateKey this) [OpenE2EE.publicKey this, Some rk] k w = (Inr ck', w')"
    "out = \<lparr> senderPublicKey = publicKeyText this,
             receiverEncryptedMessage = writeEncryptedMessage ck' cd \<rparr>"
    by blast
  then show ?thesis by (simp add: read_write)
qed

theorem share_keeps_encrypted_data_witness:
  "share toy alice ''PUBB'' (encryptedMessage (alice_note ''hi'')) ''w'' = (Inr (alice_share ''hi''), ''w'') \<and>
   (\<exists>ck cd rk k ck'.
      readEncryptedMessage (encryptedMessage (alice_note ''hi'')) = Inr (ck, cd) \<and>
      readEncryptedMessage (receiverEncryptedMessage (alice_share ''hi'')) = Inr (ck', cd) \<and>
      pgp_readPublicKey toy ''PUBB'' = Inr rk \<and>
      pgp_decryptAsymmetric toy (OpenE2EE.privateKey alice) [OpenE2EE.publicKey alice] ck = Inr k \<and>
      pgp_encryptAsymmetric toy (OpenE2EE.privateKey alice)
        [OpenE2EE.publicKey alice, Some rk] k ''w'' = (Inr ck', ''w'') \<and>
      senderPublicKey (alice_share ''hi'') = publicKeyText alice)"
proof -
  have run: "share toy alice ''PUBB'' (encryptedMessage (alice_note ''hi'')) ''w'' =
      (Inr (alice_share ''hi''), ''w'')"
    using alice_share_bob [of "''hi''"] by (simp add: bob_state)
  from share_keeps_encrypted_data [OF run] run show ?thesis by blast
qed


subsection \<open>C5: shareNew\<close>





subsection \<open>C6: operations before build or load\<close>





subsection \<open>C7: load with the wrong passphrase\<close>

text \<open>
  Claim C7.  Take an identity constructed with the passphrase \<open>p\<close>, an armored private key
  that the provider generated under a passphrase \<open>q\<close> different from \<open>p\<close>, and an armored
  public key that parses.  \<open>load\<close> of these fails with \<open>AuthenticationError\<close>, tagged
  \<open>pgp.decryptPrivateKey\<close>, whatever the timing of its two promises, and leaves the
  identity as it was constructed: both key handles absent, and no later \<open>encrypt\<close>,
  \<open>decrypt\<close>, \<open>share\<close>, \<open>shareNew\<close> or \<open>receive\<close> returns a normal result.  (When the
  public key does not parse either, both promises of \<open>Promise.all\<close> reject and the one
  that rejects first decides the failure; the claim is about a public key that parses.)
\<close>

theorem load_wrong_passphrase:
  assumes "provider_contract P"
    and "og_generateKey P q u w0 = (Inr (encryptedPrivateKey, pub), w1)"
    and "p \<noteq> q"
    and "pgp_readPublicKey P publicKey' = Inr pk"
  shows "load P race (new_OpenE2EE uid p) encryptedPrivateKey publicKey' =
           (Inl (Tagged ''pgp.decryptPrivateKey'' (Provider AuthenticationError)), new_OpenE2EE uid p) \<and>
         fails_with (fst (load P race (new_OpenE2EE uid p) encryptedPrivateKey publicKey'))
           (Provider AuthenticationError) \<and>
         OpenE2EE.privateKey (snd (load P race (new_OpenE2EE uid p) encryptedPrivateKey publicKey')) = None \<and>
         OpenE2EE.publicKey (snd (load P race (new_OpenE2EE uid p) encryptedPrivateKey publicKey')) = None \<and>
         isl (fst (encrypt P race' (snd (load P race (new_OpenE2EE uid p) encryptedPrivateKey publicKey')) d w)) \<and>
         isl (decrypt P race' (snd (load P race (new_OpenE2EE uid p) encryptedPrivateKey publicKey')) env xs) \<and>
         isl (fst (share P (snd (load P race (new_OpenE2EE uid p) encryptedPrivateKey publicKey')) r env w)) \<and>
         isl (fst (shareNew P race' (snd (load P race (new_OpenE2EE uid p) encryptedPrivateKey publicKey')) r d w)) \<and>
         isl (receive P race' (snd (load P race (new_OpenE2EE uid p) encryptedPrivateKey publicKey')) s env)"
proof -
  from assms(1) have lg: "law_generated P" and la: "law_absent P"
    by (simp_all add: provider_contract_def)
  have "passphrase (new_OpenE2EE uid p :: ('b, 'c) OpenE2EE) \<noteq> q"
    using assms(3) by (simp add: new_OpenE2EE_def)
  from wrong_passphrase_rejected [OF lg assms(2) this] assms(4)
  have ld: "load P race (new_OpenE2EE uid p) encryptedPrivateKey publicKey' =
      (Inl (Tagged ''pgp.decryptPrivateKey'' (Provider AuthenticationError)), new_OpenE2EE uid p)"
    by (simp add: load_def)
  show ?thesis
    using encrypt_absent [OF la new_absent(2)] decrypt_absent [OF la new_absent(1)]
      share_absent [OF la new_absent(1)] shareNew_absent [OF la new_absent(2)]
    by (simp add: ld fails_with_def new_absent receive_def)
qed

theorem load_wrong_passphrase_witness:
  "provider_contract toy \<and>
   og_generateKey toy ''pwA'' ''alice'' ''A'' = (Inr (''SECApwA'', ''PUBA''), []) \<and>
   ''guess'' \<noteq> ''pwA'' \<and>
   pgp_readPublicKey toy ''PUBA'' = Inr CHR ''A'' \<and>
   load toy 1 (new_OpenE2EE ''alice'' ''guess'') ''SECApwA'' ''PUBA'' =
     (Inl (Tagged ''pgp.decryptPrivateKey'' (Provider AuthenticationError)), new_OpenE2EE ''alice'' ''guess'') \<and>
   isl (fst (encrypt toy 0 (snd (load toy 1 (new_OpenE2EE ''alice'' ''guess'') ''SECApwA'' ''PUBA'')) ''hi'' ''k''))"
proof -
  have h2: "og_generateKey toy ''pwA'' ''alice'' ''A'' = (Inr (''SECApwA'', ''PUBA''), [])"
    by (simp add: toy_def toy_generateKey_def)
  have h3: "''guess'' \<noteq> ''pwA''" by simp
  have h4: "pgp_readPublicKey toy ''PUBA'' = Inr CHR ''A''"
    by (rule toy_readPublicKey)
  note run = load_wrong_passphrase [OF toy_contract h2 h3 h4, where uid = "''alice''"
      and race = 1 and race' = 0 and d = "''hi''" and w = "''k''" and env = "[]" and xs = "[]"
      and r = "[]" and s = "[]"]
  from run toy_contract h2 h3 h4 show ?thesis by blast
qed


subsection \<open>C8: the envelope codec\<close>

text \<open>
  Claim C8.  For all strings \<open>a\<close> and \<open>b\<close>, whatever characters they contain (digits and
  the colon that the codec writes included), unpacking the envelope packed from \<open>a\<close> and
  \<open>b\<close> gives \<open>a\<close> and \<open>b\<close> back.  The codec is the length-prefixed one modelled above.
\<close>

theorem codec_roundtrip: "readEncryptedMessage (writeEncryptedMessage a b) = Inr (a, b)"
  by (rule read_write)

theorem codec_roundtrip_witness:
  "writeEncryptedMessage ''1:a'' ''2:b'' = ''3:1:a2:b'' \<and>
   readEncryptedMessage ''3:1:a2:b'' = Inr (''1:a'', ''2:b'')"
proof -
  have packed: "writeEncryptedMessage ''1:a'' ''2:b'' = ''3:1:a2:b''"
    by code_simp
  from codec_roundtrip [of "''1:a''" "''2:b''"] packed show ?thesis
    by simp
qed


subsection \<open>C9: failures carry the name of the operation\<close>





subsection \<open>C10: exportMasterKeys before build or load\<close>

text \<open>
  Claim C10.  \<open>exportMasterKeys\<close> on an identity right after construction does not fail: it
  returns the two empty strings of the field initialisers.  The same holds after a
  \<open>load\<close> or a \<open>build\<close> that failed on such an identity, since a failed call assigns no
  field.
\<close>

theorem export_before_ready:
  "exportMasterKeys (new_OpenE2EE uid pass) =
     Inr \<lparr> MasterKeys.privateKey = [], MasterKeys.publicKey = [] \<rparr> \<and>
   (isl (fst (load P race (new_OpenE2EE uid pass) encryptedPrivateKey publicKey')) \<longrightarrow>
      exportMasterKeys (snd (load P race (new_OpenE2EE uid pass) encryptedPrivateKey publicKey')) =
        Inr \<lparr> MasterKeys.privateKey = [], MasterKeys.publicKey = [] \<rparr>) \<and>
   (isl (fst (fst (build P race (new_OpenE2EE uid pass) w))) \<longrightarrow>
      exportMasterKeys (snd (fst (build P race (new_OpenE2EE uid pass) w))) =
        Inr \<lparr> MasterKeys.privateKey = [], MasterKeys.publicKey = [] \<rparr>)"
  by (auto simp add: exportMasterKeys_def new_OpenE2EE_def load_def build_def
      split: sum.splits prod.splits)

theorem export_before_ready_witness:
  "isl (fst (load toy 0 (new_OpenE2EE ''alice'' ''guess'') ''SECApwA'' ''PUBA'')) \<and>
   exportMasterKeys (snd (load toy 0 (new_OpenE2EE ''alice'' ''guess'') ''SECApwA'' ''PUBA'')) =
     Inr \<lparr> MasterKeys.privateKey = [], MasterKeys.publicKey = [] \<rparr> \<and>
   exportMasterKeys fresh = Inr \<lparr> MasterKeys.privateKey = [], MasterKeys.publicKey = [] \<rparr>"
proof -
  have h: "isl (fst (load toy 0 (new_OpenE2EE ''alice'' ''guess'') ''SECApwA'' ''PUBA''))"
    by (simp add: load_def Promise_all2_def new_OpenE2EE_def pgp_defs toy_def toy_readPrivateKey_def
        toy_decryptKey_def toy_readKey_def)
  note new = export_before_ready [where uid = "''dave''" and pass = "''pwD''" and P = toy
      and race = 0 and encryptedPrivateKey = "[]" and publicKey' = "[]" and w = "[]", THEN conjunct1]
  note failed = export_before_ready [where uid = "''alice''" and pass = "''guess''" and P = toy
      and race = 0 and encryptedPrivateKey = "''SECApwA''" and publicKey' = "''PUBA''" and w = "[]",
      THEN conjunct2, THEN conjunct1, rule_format, OF h]
  from new failed h show ?thesis by (simp add: fresh_def)
qed

end
